theory Spec2Isabelle
  imports Main
begin

section \<open>Values the broker exchanges with its collaborators\<close>

text \<open>
  The submission resource that \<^verbatim>\<open>ingest_api.create_submission\<close> returns is the decoded
  JSON answer of the ingest service: nested Python dicts. A dict is an association list
  read with \<open>map_of\<close>; numbers are integers only.
\<close>

datatype json =
    JNull
  | JBool bool
  | JNum int
  | JStr string
  | JList "json list"
  | JObj "(string \<times> json) list"

text \<open>
  Exceptions are values. \<open>SpreadsheetUploadError http_code message details\<close> is the
  class of the ingest client library. \<open>Exception cls text\<close> is an exception of any other
  class deriving from Python's \<^verbatim>\<open>Exception\<close>: \<open>cls\<close> is the name of its class
  (KeyError, SubmissionSpreadsheetDoesntExist, ...) and \<open>text\<close> is what
  \<^verbatim>\<open>str(err)\<close> gives for it.
\<close>

datatype exn =
    SpreadsheetUploadError int string string
  | Exception string string

text \<open>The name of a decoded JSON value's Python type, as the interpreter's messages print it.\<close>

fun type_name :: "json \<Rightarrow> string" where
  "type_name JNull = ''NoneType''"
| "type_name (JBool b) = ''bool''"
| "type_name (JNum n) = ''int''"
| "type_name (JStr s) = ''str''"
| "type_name (JList xs) = ''list''"
| "type_name (JObj kvs) = ''dict''"

definition quoted :: "string \<Rightarrow> string" where
  "quoted s = [CHR 0x27] @ s @ [CHR 0x27]"

text \<open>
  \<^verbatim>\<open>obj[key]\<close> with a string key: a dict without the key raises KeyError (whose text
  is the key's repr), any other value raises TypeError.
\<close>

fun getitem :: "json \<Rightarrow> string \<Rightarrow> exn + json" where
  "getitem (JObj kvs) k =
     (case map_of kvs k of
        Some v \<Rightarrow> Inr v
      | None \<Rightarrow> Inl (Exception ''KeyError'' (quoted k)))"
| "getitem (JStr s) k = Inl (Exception ''TypeError'' ''string indices must be integers'')"
| "getitem (JList xs) k =
     Inl (Exception ''TypeError'' ''list indices must be integers or slices, not str'')"
| "getitem v k =
     Inl (Exception ''TypeError'' (quoted (type_name v) @ '' object is not subscriptable''))"

text \<open>\<^verbatim>\<open>obj[k1][k2]...\<close>, left to right; the first failing lookup raises.\<close>

fun getitems :: "json \<Rightarrow> string list \<Rightarrow> exn + json" where
  "getitems v [] = Inr v"
| "getitems v (k # ks) =
     (case getitem v k of
        Inl e \<Rightarrow> Inl e
      | Inr x \<Rightarrow> getitems x ks)"

text \<open>
  \<^verbatim>\<open>s.rsplit(sep, 1)\<close> for a one-character separator: the string is cut at the last
  occurrence of \<open>sep\<close>; without an occurrence the list holds the whole string.
\<close>

definition rsplit1 :: "string \<Rightarrow> char \<Rightarrow> string list" where
  "rsplit1 s sep =
     (if sep \<in> set s
      then [rev (tl (dropWhile (\<lambda>c. c \<noteq> sep) (rev s))),
            rev (takeWhile (\<lambda>c. c \<noteq> sep) (rev s))]
      else [s])"

text \<open>
  \<^verbatim>\<open>submission_url.rsplit('/', 1)[-1]\<close>: only a str has the method; on any other value
  the attribute lookup raises AttributeError.
\<close>

fun rsplit_last :: "json \<Rightarrow> exn + string" where
  "rsplit_last (JStr s) = Inr (last (rsplit1 s CHR ''/''))"
| "rsplit_last v =
     Inl (Exception ''AttributeError''
            (quoted (type_name v) @ '' object has no attribute '' @ quoted ''rsplit''))"

section \<open>Requests, responses and the broker's state\<close>

type_synonym file_storage = string

record request =
  headers :: "string \<rightharpoonup> string"
  files :: "string \<rightharpoonup> file_storage"
  form :: "string \<rightharpoonup> string"

text \<open>
  What a handler passes as \<^verbatim>\<open>response=\<close>: the str that \<^verbatim>\<open>json.dumps(data)\<close>
  returns (kept as the value it encodes), a dict object handed over as it is, or the byte
  stream of \<^verbatim>\<open>send_file\<close>.
\<close>

datatype payload =
    Json_dumps json
  | Dict_object "(string \<times> json) list"
  | Bytes_io string

record response =
  payload :: payload
  status :: int
  mimetype :: string
  attachment_filename :: "string option"

definition response_class :: "payload \<Rightarrow> int \<Rightarrow> string \<Rightarrow> response" where
  "response_class r code mt =
     \<lparr>payload = r, status = code, mimetype = mt, attachment_filename = None\<rparr>"

definition send_file :: "string \<Rightarrow> string \<Rightarrow> string \<Rightarrow> response" where
  "send_file stream mt fname =
     \<lparr>payload = Bytes_io stream, status = 200, mimetype = mt,
      attachment_filename = Some fname\<rparr>"

text \<open>
  The body that goes on the wire. The response class takes a str as the body; any other
  object is kept as the response iterable and its items are sent one after the other.
  Iterating a dict yields its keys.
\<close>

datatype body = Json_text json | Raw string

fun body_sent :: "payload \<Rightarrow> body" where
  "body_sent (Json_dumps j) = Json_text j"
| "body_sent (Dict_object kvs) = Raw (concat (map fst kvs))"
| "body_sent (Bytes_io b) = Raw b"

text \<open>What the client sees of a view function's result: the status and the body sent.\<close>

fun on_the_wire :: "exn + response \<Rightarrow> exn + int \<times> body" where
  "on_the_wire (Inl e) = Inl e"
| "on_the_wire (Inr r) = Inr (status r, body_sent (payload r))"

text \<open>
  The effects of a handler, in the order they happen: log records, the call of
  \<^verbatim>\<open>ingest_api.set_token\<close> with its argument, the call that creates the submission, and
  the start of the worker thread with its arguments. No handler calls
  \<^verbatim>\<open>thread.join\<close>; the event exists so that its absence can be stated.
\<close>

datatype event =
    Info string
  | Set_token "string option"
  | Info_created_submission json
  | Error_traceback exn
  | Create_submission bool
  | Thread_start json file_storage "string option"
  | Thread_join

record broker_state =
  ingest_api_token :: "string option"
  trace :: "event list"

definition emit :: "event \<Rightarrow> broker_state \<Rightarrow> broker_state" where
  "emit e st = st\<lparr>trace := trace st @ [e]\<rparr>"

text \<open>
  What the collaborators do, as parameters: the ingest service's answer to
  \<^verbatim>\<open>create_submission(update_submission=b)\<close> under the client's current token, whether
  \<^verbatim>\<open>thread.start()\<close> raises, how the upload service's \<^verbatim>\<open>upload\<close> ends when the
  worker runs it, and what the storage service's \<^verbatim>\<open>retrieve\<close> gives for a uuid.
\<close>

datatype worker_outcome = Completes | Raises exn | Never_returns

record spreadsheet =
  spreadsheet_name :: string
  spreadsheet_blob :: string

record env =
  create_submission :: "bool \<Rightarrow> string option \<Rightarrow> exn + json"
  thread_start :: "exn option"
  upload :: "json \<Rightarrow> file_storage \<Rightarrow> string option \<Rightarrow> worker_outcome"
  retrieve :: "string \<Rightarrow> exn + spreadsheet"

section \<open>The upload handlers of broker\_app.py\<close>

text \<open>
  The U+2019 apostrophes of the message are written as their three UTF-8 bytes; the
  backslash at the end of the source line joins the two sentences without a space.
\<close>

definition rsquo :: string where
  "rsquo = [CHR 0xE2, CHR 0x80, CHR 0x99]"

definition SPREADSHEET_UPLOAD_MESSAGE :: string where
  "SPREADSHEET_UPLOAD_MESSAGE =
     ''We'' @ rsquo @ ''ve got your spreadsheet, and we'' @ rsquo @
     ''re currently importing and validating the data.'' @
     ''Nothing else for you to do - check back later.''"

definition SPREADSHEET_UPLOAD_MESSAGE_ERROR :: string where
  "SPREADSHEET_UPLOAD_MESSAGE_ERROR = ''We experienced a problem while uploading your spreadsheet''"

definition TOKEN_MESSAGE :: string where
  "TOKEN_MESSAGE = ''An authentication token must be supplied when uploading a spreadsheet''"

text \<open>
  Modelled from the spec: \<^verbatim>\<open>IngestApi.set_token\<close>, a method of the external ingest
  client, is not in the sources. The spec describes it as setting the client's token field.
\<close>

definition set_token :: "string option \<Rightarrow> broker_state \<Rightarrow> broker_state" where
  "set_token t st = st\<lparr>ingest_api_token := t\<rparr>"

text \<open>
  Python's private names \<^verbatim>\<open>_set_token\<close>, \<^verbatim>\<open>_async_upload\<close>, ... are written with
  the prefix \<open>u\<close>. Every function returns the state it leaves behind together with
  either the exception it raises (\<open>Inl\<close>) or its value (\<open>Inr\<close>).
\<close>

definition u_set_token :: "request \<Rightarrow> broker_state \<Rightarrow> broker_state \<times> (exn + string)" where
  "u_set_token req st =
     (let st1 = emit (Info ''Checking token'') st;
          tok = headers req ''Authorization'';
          st2 = set_token tok (emit (Set_token tok) st1)
      in case tok of
           None \<Rightarrow> (st2, Inl (SpreadsheetUploadError 401 TOKEN_MESSAGE ''''))
         | Some t \<Rightarrow> (st2, Inr t))"

definition BAD_REQUEST_TEXT :: string where
  "BAD_REQUEST_TEXT =
     ''400 Bad Request: The browser (or proxy) sent a request that this server could not understand.''"

definition u_async_upload ::
  "env \<Rightarrow> request \<Rightarrow> bool \<Rightarrow> broker_state \<Rightarrow> broker_state \<times> (exn + json)" where
  "u_async_upload ev req is_update st =
     (let st1 = emit (Create_submission is_update) st in
      case create_submission ev is_update (ingest_api_token st) of
        Inl e \<Rightarrow> (st1, Inl e)
      | Inr submission_resource \<Rightarrow>
          (case getitems submission_resource [''_links'', ''self'', ''href''] of
             Inl e \<Rightarrow> (st1, Inl e)
           | Inr href \<Rightarrow>
               (let st2 = emit (Info_created_submission href) st1 in
                case files req ''file'' of
                  None \<Rightarrow> (st2, Inl (Exception ''BadRequestKeyError'' BAD_REQUEST_TEXT))
                | Some file \<Rightarrow>
                    (case thread_start ev of
                       Some e \<Rightarrow> (st2, Inl e)
                     | None \<Rightarrow>
                         (emit (Thread_start submission_resource file (form req ''projectUuid'')) st2,
                          Inr submission_resource)))))"

definition u_failure_response :: "int \<Rightarrow> string \<Rightarrow> string \<Rightarrow> response" where
  "u_failure_response status_code message details =
     response_class
       (Json_dumps (JObj [(''message'', JStr message), (''details'', JStr details)]))
       status_code ''application/json''"

definition u_success_response :: "json \<Rightarrow> exn + response" where
  "u_success_response submission_resource =
     (case getitems submission_resource [''uuid'', ''uuid''] of
        Inl e \<Rightarrow> Inl e
      | Inr submission_uuid \<Rightarrow>
          (case getitems submission_resource [''_links'', ''self'', ''href''] of
             Inl e \<Rightarrow> Inl e
           | Inr submission_url \<Rightarrow>
               (case rsplit_last submission_url of
                  Inl e \<Rightarrow> Inl e
                | Inr submission_id \<Rightarrow>
                    Inr (response_class
                           (Json_dumps (JObj
                              [(''message'', JStr SPREADSHEET_UPLOAD_MESSAGE),
                               (''details'', JObj
                                  [(''submission_url'', submission_url),
                                   (''submission_uuid'', submission_uuid),
                                   (''submission_id'', JStr submission_id)])]))
                           201 ''application/json''))))"

text \<open>The body of the \<^verbatim>\<open>try\<close> statement of \<^verbatim>\<open>_upload_spreadsheet\<close>.\<close>

definition try_body ::
  "env \<Rightarrow> request \<Rightarrow> bool \<Rightarrow> broker_state \<Rightarrow> broker_state \<times> (exn + json)" where
  "try_body ev req is_update st =
     (case u_set_token req st of
        (st1, Inl e) \<Rightarrow> (st1, Inl e)
      | (st1, Inr tok) \<Rightarrow>
          u_async_upload ev req is_update (emit (Info ''Uploading spreadsheet!'') st1))"

text \<open>
  The two \<^verbatim>\<open>except\<close> clauses in their order, then the \<^verbatim>\<open>else\<close> clause, whose
  exceptions no clause of this statement catches.
\<close>

definition u_upload_spreadsheet ::
  "env \<Rightarrow> request \<Rightarrow> bool \<Rightarrow> broker_state \<Rightarrow> broker_state \<times> (exn + response)" where
  "u_upload_spreadsheet ev req is_update st =
     (case try_body ev req is_update st of
        (st1, Inl (SpreadsheetUploadError http_code message details)) \<Rightarrow>
          (st1, Inr (u_failure_response http_code message details))
      | (st1, Inl (Exception cls text)) \<Rightarrow>
          (emit (Error_traceback (Exception cls text)) st1,
           Inr (u_failure_response 500 SPREADSHEET_UPLOAD_MESSAGE_ERROR text))
      | (st1, Inr submission_resource) \<Rightarrow>
          (st1, u_success_response submission_resource))"

text \<open>The view functions of the routes \<^verbatim>\<open>/api_upload\<close> and \<^verbatim>\<open>/api_upload_update\<close>.\<close>

definition upload_spreadsheet ::
  "env \<Rightarrow> request \<Rightarrow> broker_state \<Rightarrow> broker_state \<times> (exn + response)" where
  "upload_spreadsheet ev req st = u_upload_spreadsheet ev req False st"

definition upload_update_spreadsheet ::
  "env \<Rightarrow> request \<Rightarrow> broker_state \<Rightarrow> broker_state \<times> (exn + response)" where
  "upload_update_spreadsheet ev req st =
     (case u_set_token req st of
        (st1, Inl e) \<Rightarrow> (st1, Inl e)
      | (st1, Inr tok) \<Rightarrow> u_upload_spreadsheet ev req True st1)"

text \<open>The view function of \<^verbatim>\<open>/submissions/<submission_uuid>/spreadsheet\<close>.\<close>

definition get_submission_spreadsheet :: "env \<Rightarrow> string \<Rightarrow> exn + response" where
  "get_submission_spreadsheet ev submission_uuid =
     (case retrieve ev submission_uuid of
        Inr sheet \<Rightarrow>
          Inr (send_file (spreadsheet_blob sheet) ''application/octet-stream''
                 (spreadsheet_name sheet))
      | Inl (Exception cls text) \<Rightarrow>
          (if cls = ''SubmissionSpreadsheetDoesntExist''
           then Inr (response_class
                  (Dict_object
                     [(''message'',
                       JStr (''No spreadsheet found for submission with uuid '' @ submission_uuid))])
                  404 ''application/json'')
           else Inl (Exception cls text))
      | Inl e \<Rightarrow> Inl e)"

text \<open>
  The routing table for the two upload routes: which view function serves a route, the
  \<^verbatim>\<open>is_update\<close> flag it passes on, the log records it writes before
  \<^verbatim>\<open>_upload_spreadsheet\<close> is entered, and the state at that moment.
\<close>

datatype route = Api_upload | Api_upload_update

fun is_update_of :: "route \<Rightarrow> bool" where
  "is_update_of Api_upload = False"
| "is_update_of Api_upload_update = True"

fun dispatch ::
  "route \<Rightarrow> env \<Rightarrow> request \<Rightarrow> broker_state \<Rightarrow> broker_state \<times> (exn + response)" where
  "dispatch Api_upload ev req st = upload_spreadsheet ev req st"
| "dispatch Api_upload_update ev req st = upload_update_spreadsheet ev req st"

fun route_prefix :: "route \<Rightarrow> string option \<Rightarrow> event list" where
  "route_prefix Api_upload tok = []"
| "route_prefix Api_upload_update tok = [Info ''Checking token'', Set_token tok]"

fun entry_state :: "route \<Rightarrow> request \<Rightarrow> broker_state \<Rightarrow> broker_state" where
  "entry_state Api_upload req st = st"
| "entry_state Api_upload_update req st = fst (u_set_token req st)"

text \<open>The data of the success response for a submission with uuid \<open>u\<close> and self link \<open>url\<close>.\<close>

definition success_payload :: "json \<Rightarrow> string \<Rightarrow> payload" where
  "success_payload u url =
     Json_dumps (JObj
       [(''message'', JStr SPREADSHEET_UPLOAD_MESSAGE),
        (''details'', JObj
           [(''submission_url'', JStr url),
            (''submission_uuid'', u),
            (''submission_id'', JStr (last (rsplit1 url CHR ''/'')))])])"

section \<open>The spreadsheet tab generator\<close>

text \<open>
  Modelled from the spec: the module
  \<^verbatim>\<open>broker/service/spreadsheet_generation/spreadsheet_generator.py\<close> with
  \<^verbatim>\<open>TypeSpec\<close>, \<^verbatim>\<open>LinkSpec\<close> and \<^verbatim>\<open>SpreadsheetGenerator\<close> is not in the sources;
  only its test is. The data model follows section 3 of the spec and the constructor calls
  of the test: a TypeSpec has a name, its own fields, nested specs, a multivalue flag and a
  LinkSpec; a Tab is a sequence of Columns, each a path and a link flag.
\<close>

record LinkSpec =
  linked_types :: "string list"
  linked_multivalue_types :: "string list"

datatype TypeSpec =
  TypeSpec (name: string) (own_fields: "string list") (nested_specs: "TypeSpec list")
    (is_multivalue: bool) (link_spec: LinkSpec)

record Column =
  path :: string
  is_link :: bool

record Tab =
  columns :: "Column list"

text \<open>
  Modelled from the spec: \<^verbatim>\<open>context_to_path_string\<close> (missing from the sources) joins
  the context with dots, the way \<^verbatim>\<open>'.'.join(context)\<close> builds its result: the first
  element, then a dot and an element for each further one.
\<close>

fun context_to_path_string :: "string list \<Rightarrow> string" where
  "context_to_path_string [] = ''''"
| "context_to_path_string (x # xs) = foldl (\<lambda>acc s. acc @ ''.'' @ s) x xs"

text \<open>
  Modelled from the spec: the walk of \<^verbatim>\<open>tab_for_type\<close> (missing from the sources)
  over a TypeSpec. One column per own field, with the path of the context extended by the
  field name; then the nested specs, each under the context extended by its name.
\<close>

fun field_columns :: "string list \<Rightarrow> TypeSpec \<Rightarrow> Column list" where
  "field_columns ctx (TypeSpec n fs nested mv ls) =
     map (\<lambda>f. \<lparr>path = context_to_path_string (ctx @ [f]), is_link = False\<rparr>) fs @
     concat (map (\<lambda>s. field_columns (ctx @ [name s]) s) nested)"

text \<open>
  Modelled from the spec: the link columns of \<^verbatim>\<open>tab_for_type\<close> (missing from the
  sources). Every linked type gets a column with the path of its identifying field; the
  multivalue link types are handled identically.
\<close>

definition link_columns :: "LinkSpec \<Rightarrow> Column list" where
  "link_columns ls =
     map (\<lambda>t. \<lparr>path = t @ ''.biomaterial_core.biomaterial_id'', is_link = True\<rparr>)
       (linked_types ls @ linked_multivalue_types ls)"

text \<open>
  Modelled from the spec: \<^verbatim>\<open>SpreadsheetGenerator.tab_for_type\<close> (missing from the
  sources): the field columns from the empty context, then the link columns.
\<close>

definition tab_for_type :: "TypeSpec \<Rightarrow> Tab" where
  "tab_for_type spec = \<lparr>columns = field_columns [] spec @ link_columns (link_spec spec)\<rparr>"

section \<open>Concrete requests and collaborators\<close>

text \<open>The TypeSpec of \<^verbatim>\<open>test_link_column_generation\<close>.\<close>

definition cell_suspension_spec :: TypeSpec where
  "cell_suspension_spec =
     TypeSpec ''cell_suspension'' [] [] False
       \<lparr>linked_types = [''donor_organism''], linked_multivalue_types = []\<rparr>"

text \<open>
  A submission resource as the ingest service returns it, and a JSON object that has the
  self link but no uuid.
\<close>

definition example_resource :: json where
  "example_resource =
     JObj [(''uuid'', JObj [(''uuid'', JStr ''4674a4e5-f3c8'')]),
           (''_links'', JObj [(''self'', JObj [(''href'',
              JStr ''https://api.ingest.dev/submissionEnvelopes/5d3b'')])])]"

definition resource_without_uuid :: json where
  "resource_without_uuid =
     JObj [(''_links'', JObj [(''self'', JObj [(''href'',
              JStr ''https://api.ingest.dev/submissionEnvelopes/5d3b'')])])]"

text \<open>
  Collaborators: the ingest service creates the submission, the thread starts, the worker
  never finishes, and the storage holds no spreadsheet.
\<close>

definition example_env :: env where
  "example_env =
     \<lparr>create_submission = (\<lambda>b t. Inr example_resource),
      thread_start = None,
      upload = (\<lambda>r f p. Never_returns),
      retrieve = (\<lambda>u. Inl (Exception ''SubmissionSpreadsheetDoesntExist'' ''''))\<rparr>"

definition env_without_uuid :: env where
  "env_without_uuid = example_env\<lparr>create_submission := (\<lambda>b t. Inr resource_without_uuid)\<rparr>"

definition token_request :: request where
  "token_request =
     \<lparr>headers = [''Authorization'' \<mapsto> ''Bearer abc''],
      files = [''file'' \<mapsto> ''xlsx''],
      form = Map.empty\<rparr>"

definition no_token_request :: request where
  "no_token_request =
     \<lparr>headers = Map.empty, files = [''file'' \<mapsto> ''xlsx''], form = Map.empty\<rparr>"

definition no_file_request :: request where
  "no_file_request =
     \<lparr>headers = [''Authorization'' \<mapsto> ''Bearer abc''], files = Map.empty, form = Map.empty\<rparr>"

text \<open>The state an earlier request left behind: its token is still on the shared client.\<close>

definition earlier_state :: broker_state where
  "earlier_state = \<lparr>ingest_api_token = Some ''Bearer earlier'', trace = []\<rparr>"

section \<open>Basic facts\<close>

lemma token_emit [simp]: "ingest_api_token (emit e st) = ingest_api_token st"
  by (simp add: emit_def)

lemma trace_emit [simp]: "trace (emit e st) = trace st @ [e]"
  by (simp add: emit_def)

lemma u_set_token_Some:
  "headers req ''Authorization'' = Some tok \<Longrightarrow>
   u_set_token req st =
     (\<lparr>ingest_api_token = Some tok,
       trace = trace st @ [Info ''Checking token'', Set_token (Some tok)]\<rparr>, Inr tok)"
  by (simp add: u_set_token_def set_token_def emit_def Let_def)

lemma u_set_token_None:
  "headers req ''Authorization'' = None \<Longrightarrow>
   u_set_token req st =
     (\<lparr>ingest_api_token = None,
       trace = trace st @ [Info ''Checking token'', Set_token None]\<rparr>,
      Inl (SpreadsheetUploadError 401 TOKEN_MESSAGE ''''))"
  by (simp add: u_set_token_def set_token_def emit_def Let_def)

lemma u_set_token_state:
  "fst (u_set_token req st) =
     \<lparr>ingest_api_token = headers req ''Authorization'',
      trace = trace st @ [Info ''Checking token'', Set_token (headers req ''Authorization'')]\<rparr>"
  by (cases "headers req ''Authorization''") (simp_all add: u_set_token_None u_set_token_Some)

subsection \<open>Cutting a string at its last separator\<close>

lemma rsplit1_cut:
  assumes "sep \<in> set s"
  shows "\<exists>pre suf. rsplit1 s sep = [pre, suf] \<and> s = pre @ [sep] @ suf \<and> sep \<notin> set suf"
proof -
  let ?P = "\<lambda>c. c \<noteq> sep"
  let ?t = "takeWhile ?P (rev s)"
  let ?d = "dropWhile ?P (rev s)"
  from assms have "?d \<noteq> []" by simp
  moreover from this have "hd ?d = sep"
    using hd_dropWhile [of ?P "rev s"] by simp
  ultimately have d: "?d = sep # tl ?d"
    by (cases ?d) simp_all
  have "rev s = ?t @ ?d" by simp
  then have "rev s = ?t @ sep # tl ?d" using d by simp
  then have "s = rev (?t @ sep # tl ?d)" by (metis rev_rev_ident)
  then have s: "s = rev (tl ?d) @ [sep] @ rev ?t" by simp
  have "sep \<notin> set (rev ?t)"
    using set_takeWhileD [of sep ?P "rev s"] by auto
  with s assms show ?thesis
    unfolding rsplit1_def by auto
qed

lemma last_rsplit1_free: "sep \<notin> set (last (rsplit1 s sep))"
proof (cases "sep \<in> set s")
  case True
  then show ?thesis using rsplit1_cut [of sep s] by auto
next
  case False
  then show ?thesis by (simp add: rsplit1_def)
qed

lemma last_rsplit1_suffix:
  "sep \<in> set s \<Longrightarrow> \<exists>pre. s = pre @ [sep] @ last (rsplit1 s sep)"
  using rsplit1_cut [of sep s] by auto

lemma last_rsplit1_whole: "sep \<notin> set s \<Longrightarrow> last (rsplit1 s sep) = s"
  by (simp add: rsplit1_def)

subsection \<open>The token after a handler has run\<close>

lemma u_async_upload_token:
  "ingest_api_token (fst (u_async_upload ev req b st)) = ingest_api_token st"
  by (simp add: u_async_upload_def Let_def split: sum.split option.split)

lemma try_body_token:
  "ingest_api_token (fst (try_body ev req b st)) = headers req ''Authorization''"
  by (simp add: try_body_def u_set_token_def set_token_def Let_def u_async_upload_token
      split: option.split)

lemma u_upload_spreadsheet_token:
  "ingest_api_token (fst (u_upload_spreadsheet ev req b st)) = headers req ''Authorization''"
proof -
  obtain st1 r where tb: "try_body ev req b st = (st1, r)"
    by (cases "try_body ev req b st")
  then have "ingest_api_token st1 = headers req ''Authorization''"
    using try_body_token [of ev req b st] by simp
  then show ?thesis
    by (simp add: u_upload_spreadsheet_def tb split: sum.split exn.split)
qed

lemma upload_update_spreadsheet_token:
  "ingest_api_token (fst (upload_update_spreadsheet ev req st)) = headers req ''Authorization''"
  by (simp add: upload_update_spreadsheet_def u_set_token_def set_token_def Let_def
      u_upload_spreadsheet_token split: option.split)

subsection \<open>The path without an exception\<close>

lemma try_body_success:
  assumes "headers req ''Authorization'' = Some tok"
    and "create_submission ev b (Some tok) = Inr r"
    and "getitems r [''_links'', ''self'', ''href''] = Inr h"
    and "files req ''file'' = Some f"
    and "thread_start ev = None"
  shows "try_body ev req b st =
     (\<lparr>ingest_api_token = Some tok,
       trace = trace st @ [Info ''Checking token'', Set_token (Some tok),
                Info ''Uploading spreadsheet!'', Create_submission b, Info_created_submission h,
                Thread_start r f (form req ''projectUuid'')]\<rparr>, Inr r)"
  using assms
  by (simp add: try_body_def u_set_token_Some u_async_upload_def emit_def Let_def)

lemma u_success_response_ok:
  assumes "getitems r [''uuid'', ''uuid''] = Inr u"
    and "getitems r [''_links'', ''self'', ''href''] = Inr (JStr url)"
  shows "u_success_response r =
     Inr (response_class (success_payload u url) 201 ''application/json'')"
  using assms by (simp add: u_success_response_def success_payload_def)

lemma u_upload_spreadsheet_success:
  assumes "headers req ''Authorization'' = Some tok"
    and "create_submission ev b (Some tok) = Inr r"
    and "getitems r [''uuid'', ''uuid''] = Inr u"
    and "getitems r [''_links'', ''self'', ''href''] = Inr (JStr url)"
    and "files req ''file'' = Some f"
    and "thread_start ev = None"
  shows "u_upload_spreadsheet ev req b st =
     (\<lparr>ingest_api_token = Some tok,
       trace = trace st @ [Info ''Checking token'', Set_token (Some tok),
                Info ''Uploading spreadsheet!'', Create_submission b, Info_created_submission (JStr url),
                Thread_start r f (form req ''projectUuid'')]\<rparr>,
      Inr (response_class (success_payload u url) 201 ''application/json''))"
  using try_body_success [OF assms(1,2,4,5,6), of st] u_success_response_ok [OF assms(3,4)]
  by (simp add: u_upload_spreadsheet_def)

lemma dispatch_success:
  assumes "headers req ''Authorization'' = Some tok"
    and "create_submission ev (is_update_of route) (Some tok) = Inr r"
    and "getitems r [''uuid'', ''uuid''] = Inr u"
    and "getitems r [''_links'', ''self'', ''href''] = Inr (JStr url)"
    and "files req ''file'' = Some f"
    and "thread_start ev = None"
  shows "dispatch route ev req st =
     (\<lparr>ingest_api_token = Some tok,
       trace = trace st @ route_prefix route (Some tok) @
               [Info ''Checking token'', Set_token (Some tok), Info ''Uploading spreadsheet!'',
                Create_submission (is_update_of route), Info_created_submission (JStr url),
                Thread_start r f (form req ''projectUuid'')]\<rparr>,
      Inr (response_class (success_payload u url) 201 ''application/json''))"
proof (cases route)
  case Api_upload
  then show ?thesis
    using u_upload_spreadsheet_success [OF assms(1) _ assms(3-6), of False st] assms(2)
    by (simp add: upload_spreadsheet_def)
next
  case Api_upload_update
  then show ?thesis
    using u_upload_spreadsheet_success [OF assms(1) _ assms(3-6), of True] assms(2)
    by (simp add: upload_update_spreadsheet_def u_set_token_Some [OF assms(1)])
qed

lemma dispatch_ignores_worker:
  "dispatch route (ev\<lparr>upload := w\<rparr>) req st = dispatch route ev req st"
proof -
  have a: "u_async_upload (ev\<lparr>upload := w\<rparr>) req b s = u_async_upload ev req b s" for b s
    by (simp add: u_async_upload_def Let_def split: sum.split option.split)
  have "try_body (ev\<lparr>upload := w\<rparr>) req b s = try_body ev req b s" for b s
    by (simp add: try_body_def a split: prod.split sum.split)
  then have "u_upload_spreadsheet (ev\<lparr>upload := w\<rparr>) req b s = u_upload_spreadsheet ev req b s"
    for b s
    by (simp add: u_upload_spreadsheet_def)
  then show ?thesis
    by (cases route)
      (simp_all add: upload_spreadsheet_def upload_update_spreadsheet_def
         split: prod.split sum.split)
qed

subsection \<open>The paths with an exception\<close>

lemma try_body_missing_token:
  "headers req ''Authorization'' = None \<Longrightarrow>
   try_body ev req b st =
     (\<lparr>ingest_api_token = None,
       trace = trace st @ [Info ''Checking token'', Set_token None]\<rparr>,
      Inl (SpreadsheetUploadError 401 TOKEN_MESSAGE ''''))"
  by (simp add: try_body_def u_set_token_None)

lemma try_body_unexpected_has_token:
  assumes "snd (try_body ev req b st) = Inl (Exception cls text)"
  shows "\<exists>tok. headers req ''Authorization'' = Some tok"
proof (cases "headers req ''Authorization''")
  case None
  with assms show ?thesis by (auto simp add: try_body_missing_token)
next
  case (Some tok)
  then show ?thesis by simp
qed

lemma dispatch_with_token:
  "headers req ''Authorization'' = Some tok \<Longrightarrow>
   dispatch route ev req st =
     u_upload_spreadsheet ev req (is_update_of route) (entry_state route req st)"
  by (cases route)
    (simp_all add: upload_spreadsheet_def upload_update_spreadsheet_def u_set_token_Some)

text \<open>
  Inside the \<^verbatim>\<open>try\<close> statement a SpreadsheetUploadError becomes the failure response
  with the error's own code, message and details.
\<close>

lemma u_upload_spreadsheet_upload_error:
  assumes "snd (try_body ev req b st) = Inl (SpreadsheetUploadError c m d)"
  shows "u_upload_spreadsheet ev req b st =
     (fst (try_body ev req b st), Inr (u_failure_response c m d))"
proof -
  obtain st1 where "try_body ev req b st = (st1, Inl (SpreadsheetUploadError c m d))"
    using assms(1) by (cases "try_body ev req b st") simp
  then show ?thesis
    by (simp add: u_upload_spreadsheet_def)
qed

lemma u_upload_spreadsheet_unexpected:
  assumes "snd (try_body ev req b st) = Inl (Exception cls text)"
  shows "u_upload_spreadsheet ev req b st =
     (emit (Error_traceback (Exception cls text)) (fst (try_body ev req b st)),
      Inr (u_failure_response 500 SPREADSHEET_UPLOAD_MESSAGE_ERROR text))"
proof -
  obtain st1 where "try_body ev req b st = (st1, Inl (Exception cls text))"
    using assms(1) by (cases "try_body ev req b st") simp
  then show ?thesis
    by (simp add: u_upload_spreadsheet_def)
qed

text \<open>
  An exception raised by \<^verbatim>\<open>_success_response\<close> in the \<^verbatim>\<open>else\<close> clause leaves
  \<^verbatim>\<open>_upload_spreadsheet\<close>.
\<close>

lemma u_upload_spreadsheet_else_raises:
  assumes "try_body ev req b st = (st1, Inr r)" and "u_success_response r = Inl e"
  shows "u_upload_spreadsheet ev req b st = (st1, Inl e)"
  using assms by (simp add: u_upload_spreadsheet_def)

lemma upload_spreadsheet_missing_token:
  "headers req ''Authorization'' = None \<Longrightarrow>
   upload_spreadsheet ev req st =
     (\<lparr>ingest_api_token = None,
       trace = trace st @ [Info ''Checking token'', Set_token None]\<rparr>,
      Inr (u_failure_response 401 TOKEN_MESSAGE ''''))"
  by (simp add: upload_spreadsheet_def u_upload_spreadsheet_def try_body_missing_token)

lemma upload_update_spreadsheet_missing_token:
  "headers req ''Authorization'' = None \<Longrightarrow>
   upload_update_spreadsheet ev req st =
     (\<lparr>ingest_api_token = None,
       trace = trace st @ [Info ''Checking token'', Set_token None]\<rparr>,
      Inl (SpreadsheetUploadError 401 TOKEN_MESSAGE ''''))"
  by (simp add: upload_update_spreadsheet_def u_set_token_None)

subsection \<open>The spreadsheet route\<close>

lemma get_submission_spreadsheet_missing:
  "retrieve ev submission_uuid = Inl (Exception ''SubmissionSpreadsheetDoesntExist'' text) \<Longrightarrow>
   get_submission_spreadsheet ev submission_uuid =
     Inr \<lparr>payload = Dict_object
            [(''message'',
              JStr (''No spreadsheet found for submission with uuid '' @ submission_uuid))],
          status = 404, mimetype = ''application/json'', attachment_filename = None\<rparr>"
  by (simp add: get_submission_spreadsheet_def response_class_def)

lemma get_submission_spreadsheet_found:
  "retrieve ev submission_uuid = Inr sheet \<Longrightarrow>
   get_submission_spreadsheet ev submission_uuid =
     Inr \<lparr>payload = Bytes_io (spreadsheet_blob sheet), status = 200,
          mimetype = ''application/octet-stream'',
          attachment_filename = Some (spreadsheet_name sheet)\<rparr>"
  by (simp add: get_submission_spreadsheet_def send_file_def)

subsection \<open>The concrete inputs\<close>

lemma no_token_request_headers: "headers no_token_request ''Authorization'' = None"
  by (simp add: no_token_request_def)

lemma token_request_fields:
  "headers token_request ''Authorization'' = Some ''Bearer abc''"
  "files token_request ''file'' = Some ''xlsx''"
  "form token_request ''projectUuid'' = None"
  by (simp_all add: token_request_def)

lemma no_file_request_fields:
  "headers no_file_request ''Authorization'' = Some ''Bearer abc''"
  "files no_file_request ''file'' = None"
  by (simp_all add: no_file_request_def)

lemma example_env_fields:
  "create_submission example_env b t = Inr example_resource"
  "thread_start example_env = None"
  by (simp_all add: example_env_def)

lemma env_without_uuid_fields:
  "create_submission env_without_uuid b t = Inr resource_without_uuid"
  "thread_start env_without_uuid = None"
  by (simp_all add: env_without_uuid_def example_env_def)

lemma resource_without_uuid_href:
  "getitems resource_without_uuid [''_links'', ''self'', ''href''] =
     Inr (JStr ''https://api.ingest.dev/submissionEnvelopes/5d3b'')"
  by (simp add: resource_without_uuid_def)

lemma resource_without_uuid_raises:
  "u_success_response resource_without_uuid = Inl (Exception ''KeyError'' (quoted ''uuid''))"
  by (simp add: u_success_response_def resource_without_uuid_def)

lemma example_resource_uuid:
  "getitems example_resource [''uuid'', ''uuid''] = Inr (JStr ''4674a4e5-f3c8'')"
  by (simp add: example_resource_def)

lemma example_resource_href:
  "getitems example_resource [''_links'', ''self'', ''href''] =
     Inr (JStr ''https://api.ingest.dev/submissionEnvelopes/5d3b'')"
  by (simp add: example_resource_def)

lemma example_last_segment:
  "last (rsplit1 ''https://api.ingest.dev/submissionEnvelopes/5d3b'' CHR ''/'') = ''5d3b''"
  by (simp add: rsplit1_def)

lemma try_body_no_file:
  "try_body example_env no_file_request False earlier_state =
     (\<lparr>ingest_api_token = Some ''Bearer abc'',
       trace = [Info ''Checking token'', Set_token (Some ''Bearer abc''),
                Info ''Uploading spreadsheet!'', Create_submission False,
                Info_created_submission (JStr ''https://api.ingest.dev/submissionEnvelopes/5d3b'')]\<rparr>,
      Inl (Exception ''BadRequestKeyError'' BAD_REQUEST_TEXT))"
  by (simp add: try_body_def u_set_token_Some [OF no_file_request_fields(1)] u_async_upload_def
      emit_def Let_def example_env_fields example_resource_href no_file_request_fields(2)
      earlier_state_def del: getitems.simps)

subsection \<open>Joining a context\<close>

lemma foldl_dot_append:
  "foldl (\<lambda>acc s. acc @ ''.'' @ s) (a @ b) xs = a @ foldl (\<lambda>acc s. acc @ ''.'' @ s) b xs"
  by (induction xs arbitrary: b) simp_all

lemma context_to_path_string_step:
  "context_to_path_string (x # y # ys) = x @ ''.'' @ context_to_path_string (y # ys)"
  using foldl_dot_append [of x "''.'' @ y" ys] foldl_dot_append [of "''.''" y ys]
  by simp

lemma context_to_path_string_concat:
  "''.'' @ context_to_path_string (x # xs) = concat (map (\<lambda>s. ''.'' @ s) (x # xs))"
proof (induction xs arbitrary: x)
  case Nil
  then show ?case by simp
next
  case (Cons y ys)
  have "''.'' @ context_to_path_string (x # y # ys) =
        ''.'' @ x @ ''.'' @ context_to_path_string (y # ys)"
    by (simp only: context_to_path_string_step)
  also have "\<dots> = (''.'' @ x) @ concat (map (\<lambda>s. ''.'' @ s) (y # ys))"
    using Cons.IH [of y] by simp
  finally show ?case by simp
qed

section \<open>The claims\<close>

text \<open>
  Claim C1. A POST to \<^verbatim>\<open>/api_upload\<close> or \<^verbatim>\<open>/api_upload_update\<close> without an
  Authorization header is answered with HTTP 401 and the JSON body whose message says that
  an authentication token must be supplied and whose details are the empty string.

  On \<^verbatim>\<open>/api_upload\<close> the handler returns exactly that response. On
  \<^verbatim>\<open>/api_upload_update\<close> the view function calls \<^verbatim>\<open>_set_token\<close> itself, before and
  outside the \<^verbatim>\<open>try\<close> statement of \<^verbatim>\<open>_upload_spreadsheet\<close>, so the
  SpreadsheetUploadError leaves the view function and no 401 response is built.
\<close>

theorem missing_token_update_route_raises:
  "snd (upload_spreadsheet example_env no_token_request earlier_state) =
     Inr \<lparr>payload = Json_dumps (JObj [(''message'', JStr TOKEN_MESSAGE), (''details'', JStr '''')]),
          status = 401, mimetype = ''application/json'', attachment_filename = None\<rparr>
   \<and> snd (upload_update_spreadsheet example_env no_token_request earlier_state) =
     Inl (SpreadsheetUploadError 401 TOKEN_MESSAGE '''')"
  by (simp add: upload_spreadsheet_missing_token upload_update_spreadsheet_missing_token
      no_token_request_headers u_failure_response_def response_class_def)

text \<open>
  Claim C2. \<^verbatim>\<open>context_to_path_string\<close> joins the elements of a context with dots: the
  empty context gives the empty string, a single element is returned unchanged, and
  \<open>[a, b, c]\<close> gives \<open>a.b.c\<close>. The fourth equation is the first assertion of
  \<^verbatim>\<open>test_context_to_string\<close>; the last two say what joining is for every context:
  each further element is appended after one dot, so that the result behind a leading dot is
  the concatenation of the elements, each behind a dot.
\<close>

theorem context_to_path_string_joins:
  "context_to_path_string [] = ''''
   \<and> context_to_path_string [x] = x
   \<and> context_to_path_string [''a'', ''b'', ''c''] = ''a.b.c''
   \<and> context_to_path_string [''project'', ''project_core'', ''project_shortname'']
       = ''project.project_core.project_shortname''
   \<and> context_to_path_string (x # y # ys) = x @ ''.'' @ context_to_path_string (y # ys)
   \<and> ''.'' @ context_to_path_string (x # ys) = concat (map (\<lambda>s. ''.'' @ s) (x # ys))"
proof -
  have "context_to_path_string (x # y # ys) = x @ ''.'' @ context_to_path_string (y # ys)"
    by (rule context_to_path_string_step)
  moreover have "''.'' @ context_to_path_string (x # ys) = concat (map (\<lambda>s. ''.'' @ s) (x # ys))"
    by (rule context_to_path_string_concat)
  ultimately show ?thesis by simp
qed

text \<open>
  Claim C3. For a TypeSpec without own fields whose link spec lists the type \<open>t\<close>,
  \<^verbatim>\<open>tab_for_type\<close> yields a tab with a column whose path is
  \<open>t.biomaterial_core.biomaterial_id\<close> and whose link flag is set; in particular the
  TypeSpec of \<^verbatim>\<open>test_link_column_generation\<close> yields a column with the path
  \<open>donor_organism.biomaterial_core.biomaterial_id\<close>.
\<close>

theorem link_column_generated:
  "(t \<in> set (linked_types (link_spec spec)) \<and> own_fields spec = [] \<longrightarrow>
      (\<exists>c. c \<in> set (columns (tab_for_type spec))
           \<and> path c = t @ ''.biomaterial_core.biomaterial_id'' \<and> is_link c))
   \<and> (\<exists>c. c \<in> set (columns (tab_for_type cell_suspension_spec))
           \<and> path c = ''donor_organism.biomaterial_core.biomaterial_id'')"
proof -
  let ?donor = "\<lparr>path = ''donor_organism.biomaterial_core.biomaterial_id'', is_link = True\<rparr>"
  let ?col = "\<lparr>path = t @ ''.biomaterial_core.biomaterial_id'', is_link = True\<rparr>"
  have "?donor \<in> set (columns (tab_for_type cell_suspension_spec))"
    by (simp add: tab_for_type_def cell_suspension_spec_def link_columns_def)
  then have "\<exists>c. c \<in> set (columns (tab_for_type cell_suspension_spec))
           \<and> path c = ''donor_organism.biomaterial_core.biomaterial_id''"
    by (intro exI [of _ ?donor]) simp
  moreover have "t \<in> set (linked_types (link_spec spec)) \<Longrightarrow>
      ?col \<in> set (columns (tab_for_type spec))"
    by (simp add: tab_for_type_def link_columns_def image_iff)
  then have "t \<in> set (linked_types (link_spec spec)) \<and> own_fields spec = [] \<longrightarrow>
      (\<exists>c. c \<in> set (columns (tab_for_type spec))
           \<and> path c = t @ ''.biomaterial_core.biomaterial_id'' \<and> is_link c)"
    by (intro impI exI [of _ ?col]) simp
  ultimately show ?thesis by simp
qed

theorem link_column_generated_witness:
  "''donor_organism'' \<in> set (linked_types (link_spec cell_suspension_spec))
   \<and> own_fields cell_suspension_spec = []
   \<and> (\<exists>c. c \<in> set (columns (tab_for_type cell_suspension_spec))
           \<and> path c = ''donor_organism.biomaterial_core.biomaterial_id'' \<and> is_link c)"
proof -
  have h: "''donor_organism'' \<in> set (linked_types (link_spec cell_suspension_spec))
           \<and> own_fields cell_suspension_spec = []"
    by (simp add: cell_suspension_spec_def)
  with link_column_generated [of "''donor_organism''" cell_suspension_spec]
  show ?thesis by simp
qed

text \<open>
  Claim C4. A GET of \<^verbatim>\<open>/submissions/<uuid>/spreadsheet\<close> for a submission without a
  stored spreadsheet is answered with HTTP 404 and a JSON body whose message references the
  uuid.

  The status is 404, but the handler passes the dict itself as \<^verbatim>\<open>response=\<close>, not its
  \<^verbatim>\<open>json.dumps\<close> as the other handlers do. The body sent is what iterating the dict
  yields, the key \<open>message\<close>: the same bytes for every uuid, and not JSON.
\<close>

theorem missing_spreadsheet_body_is_dict_key:
  "get_submission_spreadsheet example_env ''abc'' =
     Inr \<lparr>payload = Dict_object
            [(''message'', JStr ''No spreadsheet found for submission with uuid abc'')],
          status = 404, mimetype = ''application/json'', attachment_filename = None\<rparr>
   \<and> on_the_wire (get_submission_spreadsheet example_env ''abc'') = Inr (404, Raw ''message'')
   \<and> on_the_wire (get_submission_spreadsheet example_env ''xyz'') = Inr (404, Raw ''message'')"
proof -
  have "retrieve example_env uuid = Inl (Exception ''SubmissionSpreadsheetDoesntExist'' '''')"
    for uuid
    by (simp add: example_env_def)
  then show ?thesis
    by (simp add: get_submission_spreadsheet_missing)
qed

text \<open>
  Claim C5, as stated: an upload request with the token present, the submission created and
  the worker dispatched without a synchronous error is answered with HTTP 201 and a JSON body
  with a message and a details object holding exactly the keys submission\_url,
  submission\_uuid and submission\_id.

  This fails when the resource the ingest service returns for the created submission has no
  \<open>uuid\<close> entry. On \<^verbatim>\<open>/api_upload_update\<close> the token is present, the submission is
  created, the file is there and the thread is started as the last effect; then
  \<^verbatim>\<open>_success_response\<close> raises KeyError in the \<^verbatim>\<open>else\<close> clause and the view
  function returns no 201 response.
\<close>

theorem created_resource_without_uuid_gives_no_201:
  "headers token_request ''Authorization'' = Some ''Bearer abc''
   \<and> create_submission env_without_uuid (is_update_of Api_upload_update) (Some ''Bearer abc'')
       = Inr resource_without_uuid
   \<and> files token_request ''file'' = Some ''xlsx''
   \<and> thread_start env_without_uuid = None
   \<and> trace (fst (dispatch Api_upload_update env_without_uuid token_request earlier_state)) =
       [Info ''Checking token'', Set_token (Some ''Bearer abc''),
        Info ''Checking token'', Set_token (Some ''Bearer abc''),
        Info ''Uploading spreadsheet!'', Create_submission True,
        Info_created_submission (JStr ''https://api.ingest.dev/submissionEnvelopes/5d3b''),
        Thread_start resource_without_uuid ''xlsx'' None]
   \<and> snd (dispatch Api_upload_update env_without_uuid token_request earlier_state) =
       Inl (Exception ''KeyError'' (quoted ''uuid''))"
proof -
  let ?st = "entry_state Api_upload_update token_request earlier_state"
  have d: "dispatch Api_upload_update env_without_uuid token_request earlier_state =
      u_upload_spreadsheet env_without_uuid token_request True ?st"
    using dispatch_with_token [OF token_request_fields(1), of Api_upload_update] by simp
  have tb: "try_body env_without_uuid token_request True ?st =
     (\<lparr>ingest_api_token = Some ''Bearer abc'',
       trace = trace ?st @ [Info ''Checking token'', Set_token (Some ''Bearer abc''),
                Info ''Uploading spreadsheet!'', Create_submission True,
                Info_created_submission (JStr ''https://api.ingest.dev/submissionEnvelopes/5d3b''),
                Thread_start resource_without_uuid ''xlsx'' None]\<rparr>, Inr resource_without_uuid)"
    using try_body_success [OF token_request_fields(1) env_without_uuid_fields(1)
        resource_without_uuid_href token_request_fields(2) env_without_uuid_fields(2), of True ?st]
    by (simp add: token_request_fields)
  have st: "trace ?st = [Info ''Checking token'', Set_token (Some ''Bearer abc'')]"
    by (simp add: u_set_token_Some [OF token_request_fields(1)] earlier_state_def)
  note u = u_upload_spreadsheet_else_raises [OF tb resource_without_uuid_raises]
  show ?thesis
    unfolding d u using st
    by (simp add: token_request_fields env_without_uuid_fields)
qed

text \<open>
  Claim C5, amended: an upload request with the token present, for which the ingest service
  returns a resource of the created submission that carries \<open>uuid.uuid\<close> and a string
  \<open>_links.self.href\<close>, whose form has the file and whose worker thread starts, is answered
  with HTTP 201 and a JSON body with a message and a details object holding exactly the keys
  submission\_url, submission\_uuid and submission\_id. This holds on both routes and from
  every state.
\<close>

theorem upload_success_response:
  assumes "headers req ''Authorization'' = Some tok"
    and "create_submission ev (is_update_of route) (Some tok) = Inr r"
    and "getitems r [''uuid'', ''uuid''] = Inr u"
    and "getitems r [''_links'', ''self'', ''href''] = Inr (JStr url)"
    and "files req ''file'' = Some f"
    and "thread_start ev = None"
  shows "snd (dispatch route ev req st) =
     Inr \<lparr>payload = Json_dumps (JObj
            [(''message'', JStr SPREADSHEET_UPLOAD_MESSAGE),
             (''details'', JObj
                [(''submission_url'', JStr url),
                 (''submission_uuid'', u),
                 (''submission_id'', JStr (last (rsplit1 url CHR ''/'')))])]),
          status = 201, mimetype = ''application/json'', attachment_filename = None\<rparr>"
  using dispatch_success [OF assms, of st]
  by (simp add: response_class_def success_payload_def)

theorem upload_success_response_witness:
  "headers token_request ''Authorization'' = Some ''Bearer abc''
   \<and> create_submission example_env (is_update_of Api_upload_update) (Some ''Bearer abc'')
       = Inr example_resource
   \<and> getitems example_resource [''uuid'', ''uuid''] = Inr (JStr ''4674a4e5-f3c8'')
   \<and> getitems example_resource [''_links'', ''self'', ''href''] =
       Inr (JStr ''https://api.ingest.dev/submissionEnvelopes/5d3b'')
   \<and> files token_request ''file'' = Some ''xlsx''
   \<and> thread_start example_env = None
   \<and> snd (dispatch Api_upload_update example_env token_request earlier_state) =
     Inr \<lparr>payload = Json_dumps (JObj
            [(''message'', JStr SPREADSHEET_UPLOAD_MESSAGE),
             (''details'', JObj
                [(''submission_url'', JStr ''https://api.ingest.dev/submissionEnvelopes/5d3b''),
                 (''submission_uuid'', JStr ''4674a4e5-f3c8''),
                 (''submission_id'', JStr ''5d3b'')])]),
          status = 201, mimetype = ''application/json'', attachment_filename = None\<rparr>"
  using upload_success_response [OF token_request_fields(1) example_env_fields(1)
      example_resource_uuid example_resource_href token_request_fields(2) example_env_fields(2),
      of Api_upload_update earlier_state]
  by (simp add: token_request_fields example_env_fields example_resource_uuid
      example_resource_href example_last_segment del: getitems.simps)

text \<open>
  Claim C6, as stated: whenever an exception other than SpreadsheetUploadError is raised on
  the synchronous path of an upload request, the answer is HTTP 500 with the fixed message,
  and the stack trace is logged.

  This fails for an exception raised while the success response is built: the call of
  \<^verbatim>\<open>_success_response\<close> stands in the \<^verbatim>\<open>else\<close> clause, which the \<^verbatim>\<open>except\<close>
  clauses do not cover. For a created resource without \<open>uuid\<close> the KeyError leaves the
  view function: no response is returned and no traceback is logged by the handler.
\<close>

theorem success_response_error_escapes:
  "snd (upload_spreadsheet env_without_uuid token_request earlier_state) =
     Inl (Exception ''KeyError'' (quoted ''uuid''))
   \<and> isl (snd (upload_spreadsheet env_without_uuid token_request earlier_state))
   \<and> Error_traceback (Exception ''KeyError'' (quoted ''uuid''))
       \<notin> set (trace (fst (upload_spreadsheet env_without_uuid token_request earlier_state)))"
proof -
  have href: "getitems resource_without_uuid [''_links'', ''self'', ''href''] =
      Inr (JStr ''https://api.ingest.dev/submissionEnvelopes/5d3b'')"
    by (simp add: resource_without_uuid_def)
  have "create_submission env_without_uuid False (Some ''Bearer abc'') = Inr resource_without_uuid"
    and "thread_start env_without_uuid = None"
    by (simp_all add: env_without_uuid_def example_env_def)
  from try_body_success [OF token_request_fields(1) this(1) href token_request_fields(2) this(2),
      of earlier_state]
  have tb: "try_body env_without_uuid token_request False earlier_state =
     (\<lparr>ingest_api_token = Some ''Bearer abc'',
       trace = [Info ''Checking token'', Set_token (Some ''Bearer abc''),
                Info ''Uploading spreadsheet!'', Create_submission False,
                Info_created_submission (JStr ''https://api.ingest.dev/submissionEnvelopes/5d3b''),
                Thread_start resource_without_uuid ''xlsx'' None]\<rparr>, Inr resource_without_uuid)"
    by (simp add: token_request_fields earlier_state_def)
  have "u_success_response resource_without_uuid = Inl (Exception ''KeyError'' (quoted ''uuid''))"
    by (simp add: u_success_response_def resource_without_uuid_def)
  with tb show ?thesis
    by (simp add: upload_spreadsheet_def u_upload_spreadsheet_def)
qed

text \<open>
  Claim C6, amended: whenever an exception other than SpreadsheetUploadError is raised inside
  the \<^verbatim>\<open>try\<close> statement of \<^verbatim>\<open>_upload_spreadsheet\<close> (the token check, the creation of
  the submission, the read of the file field, the start of the worker), the answer is
  HTTP 500 with the fixed message and the exception's text as details, and the last record
  the handler logs is the stack trace. This holds on both routes.
\<close>

theorem unexpected_exception_in_try_gives_500:
  assumes "snd (try_body ev req (is_update_of route) (entry_state route req st))
             = Inl (Exception cls text)"
  shows "snd (dispatch route ev req st) =
       Inr \<lparr>payload = Json_dumps (JObj
              [(''message'', JStr SPREADSHEET_UPLOAD_MESSAGE_ERROR),
               (''details'', JStr text)]),
            status = 500, mimetype = ''application/json'', attachment_filename = None\<rparr>
     \<and> trace (fst (dispatch route ev req st)) =
         trace (fst (try_body ev req (is_update_of route) (entry_state route req st)))
           @ [Error_traceback (Exception cls text)]"
proof -
  from try_body_unexpected_has_token [OF assms]
  obtain tok where "headers req ''Authorization'' = Some tok" ..
  then have "dispatch route ev req st =
      u_upload_spreadsheet ev req (is_update_of route) (entry_state route req st)"
    by (rule dispatch_with_token)
  with u_upload_spreadsheet_unexpected [OF assms] show ?thesis
    by (simp add: u_failure_response_def response_class_def)
qed

theorem unexpected_exception_in_try_gives_500_witness:
  "snd (try_body example_env no_file_request (is_update_of Api_upload)
          (entry_state Api_upload no_file_request earlier_state))
     = Inl (Exception ''BadRequestKeyError'' BAD_REQUEST_TEXT)
   \<and> snd (dispatch Api_upload example_env no_file_request earlier_state) =
       Inr \<lparr>payload = Json_dumps (JObj
              [(''message'', JStr SPREADSHEET_UPLOAD_MESSAGE_ERROR),
               (''details'', JStr BAD_REQUEST_TEXT)]),
            status = 500, mimetype = ''application/json'', attachment_filename = None\<rparr>
   \<and> trace (fst (dispatch Api_upload example_env no_file_request earlier_state)) =
       [Info ''Checking token'', Set_token (Some ''Bearer abc''),
        Info ''Uploading spreadsheet!'', Create_submission False,
        Info_created_submission (JStr ''https://api.ingest.dev/submissionEnvelopes/5d3b''),
        Error_traceback (Exception ''BadRequestKeyError'' BAD_REQUEST_TEXT)]"
proof -
  have h: "snd (try_body example_env no_file_request (is_update_of Api_upload)
          (entry_state Api_upload no_file_request earlier_state))
     = Inl (Exception ''BadRequestKeyError'' BAD_REQUEST_TEXT)"
    by (simp add: try_body_no_file)
  from unexpected_exception_in_try_gives_500 [OF h] h show ?thesis
    by (simp add: try_body_no_file)
qed

text \<open>
  Claim C7. Whenever a SpreadsheetUploadError is raised on the synchronous path of an upload
  request, the answer has the error's http\_code as its status and carries the error's
  message and details.

  Inside the \<^verbatim>\<open>try\<close> statement this holds (\<open>u_upload_spreadsheet_upload_error\<close>). On
  \<^verbatim>\<open>/api_upload_update\<close> without a token the error with code 401 is raised by the call of
  \<^verbatim>\<open>_set_token\<close> in the view function, outside the \<^verbatim>\<open>try\<close> statement, and the view
  function returns no response at all.
\<close>

theorem upload_error_escapes_update_route:
  "snd (u_set_token no_token_request earlier_state) =
     Inl (SpreadsheetUploadError 401 TOKEN_MESSAGE '''')
   \<and> isl (snd (upload_update_spreadsheet example_env no_token_request earlier_state))
   \<and> snd (upload_update_spreadsheet example_env no_token_request earlier_state)
         \<noteq> Inr (u_failure_response 401 TOKEN_MESSAGE '''')"
  by (simp add: u_set_token_None upload_update_spreadsheet_missing_token no_token_request_headers)

text \<open>
  Claim C8. On every successful upload request the submission is created before the worker
  thread is started, the worker is never joined, and the success response is returned
  without waiting for the worker. The effects of the handler are, in this order, the log
  records, the call of \<^verbatim>\<open>create_submission\<close>, the record of the created link, and the
  start of the thread with the resource, the file and the project uuid; nothing follows the
  start and no join is among them. The result of the handler is the same whatever the
  worker does, and the 201 response is returned also when the worker never returns.
\<close>

theorem submission_created_before_worker_started:
  assumes "headers req ''Authorization'' = Some tok"
    and "create_submission ev (is_update_of route) (Some tok) = Inr r"
    and "getitems r [''uuid'', ''uuid''] = Inr u"
    and "getitems r [''_links'', ''self'', ''href''] = Inr (JStr url)"
    and "files req ''file'' = Some f"
    and "thread_start ev = None"
  shows "trace (fst (dispatch route ev req st)) =
       trace st @ route_prefix route (Some tok) @
         [Info ''Checking token'', Set_token (Some tok), Info ''Uploading spreadsheet!'',
          Create_submission (is_update_of route), Info_created_submission (JStr url),
          Thread_start r f (form req ''projectUuid'')]
     \<and> Thread_join \<notin> set (drop (length (trace st)) (trace (fst (dispatch route ev req st))))
     \<and> dispatch route (ev\<lparr>upload := w\<rparr>) req st = dispatch route ev req st
     \<and> (\<exists>resp. snd (dispatch route (ev\<lparr>upload := (\<lambda>r f p. Never_returns)\<rparr>) req st) = Inr resp
           \<and> status resp = 201)"
proof -
  note d = dispatch_success [OF assms, of st]
  have t: "trace (fst (dispatch route ev req st)) =
       trace st @ route_prefix route (Some tok) @
         [Info ''Checking token'', Set_token (Some tok), Info ''Uploading spreadsheet!'',
          Create_submission (is_update_of route), Info_created_submission (JStr url),
          Thread_start r f (form req ''projectUuid'')]"
    using d by simp
  have j: "Thread_join \<notin> set (drop (length (trace st)) (trace (fst (dispatch route ev req st))))"
    unfolding t by (cases route) simp_all
  have s: "\<exists>resp. snd (dispatch route (ev\<lparr>upload := (\<lambda>r f p. Never_returns)\<rparr>) req st) = Inr resp
           \<and> status resp = 201"
    unfolding dispatch_ignores_worker using d by (simp add: response_class_def)
  from t j s show ?thesis
    by (simp only: dispatch_ignores_worker simp_thms)
qed

theorem submission_created_before_worker_started_witness:
  "headers token_request ''Authorization'' = Some ''Bearer abc''
   \<and> create_submission example_env (is_update_of Api_upload) (Some ''Bearer abc'')
       = Inr example_resource
   \<and> getitems example_resource [''uuid'', ''uuid''] = Inr (JStr ''4674a4e5-f3c8'')
   \<and> getitems example_resource [''_links'', ''self'', ''href''] =
       Inr (JStr ''https://api.ingest.dev/submissionEnvelopes/5d3b'')
   \<and> files token_request ''file'' = Some ''xlsx''
   \<and> thread_start example_env = None
   \<and> trace (fst (dispatch Api_upload example_env token_request earlier_state)) =
         [Info ''Checking token'', Set_token (Some ''Bearer abc''),
          Info ''Uploading spreadsheet!'', Create_submission False,
          Info_created_submission (JStr ''https://api.ingest.dev/submissionEnvelopes/5d3b''),
          Thread_start example_resource ''xlsx'' None]
   \<and> dispatch Api_upload
         (example_env\<lparr>upload := (\<lambda>r f p. Raises (Exception ''ValueError'' ''bad sheet''))\<rparr>)
         token_request earlier_state
       = dispatch Api_upload example_env token_request earlier_state"
  using submission_created_before_worker_started [OF token_request_fields(1) example_env_fields(1)
      example_resource_uuid example_resource_href token_request_fields(2) example_env_fields(2),
      of Api_upload earlier_state "\<lambda>r f p. Raises (Exception ''ValueError'' ''bad sheet'')"]
  by (simp add: token_request_fields example_env_fields example_resource_uuid
      example_resource_href earlier_state_def del: getitems.simps)

text \<open>
  Claim C9. \<^verbatim>\<open>_set_token\<close> puts the request's token (None without the header) on the
  shared ingest client before it checks the token, so the client's token is overwritten on
  the 401 path too. Whatever the header, \<^verbatim>\<open>_set_token\<close> calls
  \<^verbatim>\<open>ingest_api.set_token\<close> with the header's value; after it, and after either upload
  route, the client's token is the request's Authorization header whatever it was before;
  without the header \<^verbatim>\<open>_set_token\<close> raises the 401 error and the client is left with
  no token.
\<close>

theorem set_token_before_check:
  "trace (fst (u_set_token req st)) =
     trace st @ [Info ''Checking token'', Set_token (headers req ''Authorization'')]
   \<and> ingest_api_token (fst (u_set_token req st)) = headers req ''Authorization''
   \<and> ingest_api_token (fst (dispatch route ev req st)) = headers req ''Authorization''
   \<and> (headers req ''Authorization'' = None \<longrightarrow>
        snd (u_set_token req st) = Inl (SpreadsheetUploadError 401 TOKEN_MESSAGE '''')
        \<and> ingest_api_token (fst (u_set_token req st)) = None)"
  by (cases route)
     (simp_all add: u_set_token_state u_set_token_None upload_spreadsheet_def
        u_upload_spreadsheet_token upload_update_spreadsheet_token)

theorem set_token_before_check_witness:
  "headers no_token_request ''Authorization'' = None
   \<and> ingest_api_token earlier_state = Some ''Bearer earlier''
   \<and> trace (fst (u_set_token no_token_request earlier_state)) =
       [Info ''Checking token'', Set_token None]
   \<and> snd (u_set_token no_token_request earlier_state) =
       Inl (SpreadsheetUploadError 401 TOKEN_MESSAGE '''')
   \<and> ingest_api_token (fst (u_set_token no_token_request earlier_state)) = None
   \<and> ingest_api_token (fst (dispatch Api_upload example_env no_token_request earlier_state)) = None
   \<and> ingest_api_token (fst (dispatch Api_upload_update example_env no_token_request earlier_state))
       = None"
  using set_token_before_check [of no_token_request earlier_state Api_upload example_env]
    set_token_before_check [of no_token_request earlier_state Api_upload_update example_env]
  by (simp add: no_token_request_headers earlier_state_def)

text \<open>
  Claim C10. In every successful upload response the submission\_id of the details is the
  part of submission\_url after its last slash: the id holds no slash and the url is some
  prefix, a slash and the id. (A self link without any slash would be returned whole.)
\<close>

theorem submission_id_is_last_segment:
  assumes "headers req ''Authorization'' = Some tok"
    and "create_submission ev (is_update_of route) (Some tok) = Inr r"
    and "getitems r [''uuid'', ''uuid''] = Inr u"
    and "getitems r [''_links'', ''self'', ''href''] = Inr (JStr url)"
    and "files req ''file'' = Some f"
    and "thread_start ev = None"
  shows "\<exists>resp m d sid.
       snd (dispatch route ev req st) = Inr resp
     \<and> payload resp = Json_dumps (JObj [(''message'', m), (''details'', JObj d)])
     \<and> map_of d ''submission_url'' = Some (JStr url)
     \<and> map_of d ''submission_id'' = Some (JStr sid)
     \<and> CHR ''/'' \<notin> set sid
     \<and> (if CHR ''/'' \<in> set url then \<exists>pre. url = pre @ ''/'' @ sid else sid = url)"
proof -
  let ?sid = "last (rsplit1 url CHR ''/'')"
  let ?d = "[(''submission_url'', JStr url), (''submission_uuid'', u),
             (''submission_id'', JStr ?sid)]"
  let ?resp = "response_class (success_payload u url) 201 ''application/json''"
  have "snd (dispatch route ev req st) = Inr ?resp"
    using dispatch_success [OF assms, of st] by simp
  moreover have "payload ?resp =
      Json_dumps (JObj [(''message'', JStr SPREADSHEET_UPLOAD_MESSAGE), (''details'', JObj ?d)])"
    by (simp add: response_class_def success_payload_def)
  moreover have "map_of ?d ''submission_url'' = Some (JStr url)"
    and "map_of ?d ''submission_id'' = Some (JStr ?sid)"
    by simp_all
  moreover have "CHR ''/'' \<notin> set ?sid"
    by (rule last_rsplit1_free)
  moreover have "if CHR ''/'' \<in> set url then \<exists>pre. url = pre @ ''/'' @ ?sid else ?sid = url"
    using last_rsplit1_suffix [of "CHR ''/''" url] last_rsplit1_whole [of "CHR ''/''" url]
    by auto
  ultimately show ?thesis by blast
qed

theorem submission_id_is_last_segment_witness:
  "headers token_request ''Authorization'' = Some ''Bearer abc''
   \<and> create_submission example_env (is_update_of Api_upload) (Some ''Bearer abc'')
       = Inr example_resource
   \<and> getitems example_resource [''uuid'', ''uuid''] = Inr (JStr ''4674a4e5-f3c8'')
   \<and> getitems example_resource [''_links'', ''self'', ''href''] =
       Inr (JStr ''https://api.ingest.dev/submissionEnvelopes/5d3b'')
   \<and> files token_request ''file'' = Some ''xlsx''
   \<and> thread_start example_env = None
   \<and> (\<exists>resp m d sid.
       snd (dispatch Api_upload example_env token_request earlier_state) = Inr resp
     \<and> payload resp = Json_dumps (JObj [(''message'', m), (''details'', JObj d)])
     \<and> map_of d ''submission_url'' = Some (JStr ''https://api.ingest.dev/submissionEnvelopes/5d3b'')
     \<and> map_of d ''submission_id'' = Some (JStr sid)
     \<and> CHR ''/'' \<notin> set sid
     \<and> (\<exists>pre. ''https://api.ingest.dev/submissionEnvelopes/5d3b'' = pre @ ''/'' @ sid))"
proof -
  have s: "CHR ''/'' \<in> set ''https://api.ingest.dev/submissionEnvelopes/5d3b''"
    by simp
  from submission_id_is_last_segment [OF token_request_fields(1) example_env_fields(1)
      example_resource_uuid example_resource_href token_request_fields(2) example_env_fields(2),
      of Api_upload earlier_state]
  obtain resp m d sid where
    "snd (dispatch Api_upload example_env token_request earlier_state) = Inr resp"
    "payload resp = Json_dumps (JObj [(''message'', m), (''details'', JObj d)])"
    "map_of d ''submission_url'' = Some (JStr ''https://api.ingest.dev/submissionEnvelopes/5d3b'')"
    "map_of d ''submission_id'' = Some (JStr sid)"
    "CHR ''/'' \<notin> set sid"
    "\<exists>pre. ''https://api.ingest.dev/submissionEnvelopes/5d3b'' = pre @ ''/'' @ sid"
    unfolding if_P [OF s] by blast
  then have "\<exists>resp m d sid.
       snd (dispatch Api_upload example_env token_request earlier_state) = Inr resp
     \<and> payload resp = Json_dumps (JObj [(''message'', m), (''details'', JObj d)])
     \<and> map_of d ''submission_url'' = Some (JStr ''https://api.ingest.dev/submissionEnvelopes/5d3b'')
     \<and> map_of d ''submission_id'' = Some (JStr sid)
     \<and> CHR ''/'' \<notin> set sid
     \<and> (\<exists>pre. ''https://api.ingest.dev/submissionEnvelopes/5d3b'' = pre @ ''/'' @ sid)"
    by blast
  then show ?thesis
    by (simp add: token_request_fields example_env_fields example_resource_uuid
      example_resource_href del: getitems.simps)
qed

end
